theory Spec2Isabelle
  imports Main "HOL-Library.Word" "HOL-Library.AList"
begin

section \<open>The dashboard resource of the SignalFx provider (signalform/dashboard.go)\<close>

text \<open>
  The file translates a Terraform resource description into the JSON payload of the
  SignalFx dashboard API and maps create, read, update and delete onto four HTTP helpers.
  Go strings are byte sequences (\<open>string\<close>), Go's \<open>int\<close> is the 64-bit two's
  complement integer of the platforms the provider is built for (\<open>64 word\<close>, so that
  \<open>*\<close> wraps as Go's does), and a Go \<open>error\<close> is its message, \<open>None\<close> being nil.
\<close>

type_synonym go_int = "64 word"
type_synonym error = string

subsection \<open>Values stored behind \<open>interface{}\<close>\<close>

text \<open>
  The payload is a \<open>map[string]interface{}\<close> holding strings, ints, bools, slices and
  further maps. A map is kept as an association list without repeated keys: \<open>m[k] = v\<close> is
  \<open>AList.update k v m\<close>, \<open>len(m)\<close> is \<open>length m\<close> and a lookup is \<open>map_of m k\<close>.
  \<open>VNil\<close> is the nil map that \<open>make([]map[string]interface{}, n)\<close> fills a slice with.
\<close>

datatype val =
    VNil
  | VString string
  | VInt go_int
  | VBool bool
  | VList "val list"
  | VMap "(string \<times> val) list"

type_synonym go_map = "(string \<times> val) list"

subsection \<open>The resource description\<close>

text \<open>
  \<open>schema.ResourceData\<close> is typed by the schema of \<open>dashboardResource\<close> (lines 13 to 136):
  \<open>d.Get(k)\<close> returns a value of the type declared for \<open>k\<close>, so each assertion
  \<open>d.Get(k).(T)\<close> of the source is the field of that type. An optional scalar that the
  configuration leaves out is \<open>None\<close>. A \<open>*schema.Set\<close> is the list its method
  \<open>List()\<close> returns. The elements of a nested set are maps holding every key of the
  element schema.
\<close>

datatype 'a schema_Set = SchemaSet (Set_List: "'a list")

record chart_item =
  chart_id :: string
  chart_row :: go_int
  chart_column :: go_int
  chart_width :: go_int
  chart_height :: go_int

record variable_item =
  var_property :: string
  var_alias :: string
  var_values :: "string schema_Set"

record filter_item =
  flt_property :: string
  flt_negated :: bool
  flt_values :: "string schema_Set"

text \<open>\<open>last_updated\<close> is a float64, kept as its 64 bits; \<open>resource_id\<close> is what \<open>d.Id()\<close> returns.\<close>

record ResourceData =
  resource_id :: string
  synced :: go_int
  last_updated :: "64 word"
  name :: string
  description :: "string option"
  dashboard_group :: string
  time_start :: "go_int option"
  time_end :: "go_int option"
  chart :: "chart_item schema_Set"
  variable :: "variable_item schema_Set"
  filter_set :: "filter_item schema_Set"

text \<open>
  \<open>Get\<close> returns the zero value of the type for a key that is not set. \<open>GetOk\<close> returns
  the value and whether the key has been set to a non-zero value.
\<close>

definition Get_string :: "string option \<Rightarrow> string" where
  "Get_string f = (case f of None \<Rightarrow> [] | Some s \<Rightarrow> s)"

definition Get_int :: "go_int option \<Rightarrow> go_int" where
  "Get_int f = (case f of None \<Rightarrow> 0 | Some v \<Rightarrow> v)"

definition GetOk_int :: "go_int option \<Rightarrow> go_int \<times> bool" where
  "GetOk_int f = (case f of None \<Rightarrow> (0, False) | Some v \<Rightarrow> (v, v \<noteq> 0))"

text \<open>\<open>len\<close> of a map that may be nil (\<open>None\<close>).\<close>

definition len_map :: "go_map option \<Rightarrow> nat" where
  "len_map m = (case m of None \<Rightarrow> 0 | Some al \<Rightarrow> length al)"

subsection \<open>The translators\<close>

text \<open>\<open>for i, x := range xs { out[i] = body(x) }\<close>, the loop of the three list translators.\<close>

fun for_range :: "('a \<Rightarrow> 'b) \<Rightarrow> nat \<Rightarrow> 'a list \<Rightarrow> 'b list \<Rightarrow> 'b list" where
  "for_range body i [] out = out"
| "for_range body i (x # xs) out = for_range body (Suc i) xs (out[i := body x])"

definition getDashboardTime :: "ResourceData \<Rightarrow> go_map option" where
  "getDashboardTime d =
     (let time = [];
          time = (case GetOk_int (time_start d) of
                    (v, ok) \<Rightarrow> if ok then AList.update ''start'' (VInt (v * 1000)) time else time);
          time = (case GetOk_int (time_end d) of
                    (v, ok) \<Rightarrow> if ok then AList.update ''end'' (VInt (v * 1000)) time else time)
      in if length time > 0 then Some time else None)"

definition chart_body :: "chart_item \<Rightarrow> val" where
  "chart_body c =
     (let item = [];
          item = AList.update ''chartId'' (VString (chart_id c)) item;
          item = AList.update ''row'' (VInt (chart_row c)) item;
          item = AList.update ''column'' (VInt (chart_column c)) item;
          item = AList.update ''height'' (VInt (chart_height c)) item;
          item = AList.update ''width'' (VInt (chart_width c)) item
      in VMap item)"

definition getDashboardCharts :: "ResourceData \<Rightarrow> val list" where
  "getDashboardCharts d =
     (let charts = Set_List (chart d);
          charts_list = replicate (length charts) VNil
      in for_range chart_body 0 charts charts_list)"

definition variable_body :: "variable_item \<Rightarrow> val" where
  "variable_body v =
     (let item = [];
          item = AList.update ''property'' (VString (var_property v)) item;
          item = AList.update ''alias'' (VString (var_alias v)) item;
          item = AList.update ''value'' (VList (map VString (Set_List (var_values v)))) item
      in VMap item)"

definition getDashboardVariables :: "ResourceData \<Rightarrow> val list" where
  "getDashboardVariables d =
     (let variables = Set_List (variable d);
          vars_list = replicate (length variables) VNil
      in for_range variable_body 0 variables vars_list)"

definition filter_body :: "filter_item \<Rightarrow> val" where
  "filter_body f =
     (let item = [];
          item = AList.update ''property'' (VString (flt_property f)) item;
          item = AList.update ''NOT'' (VBool (flt_negated f)) item;
          item = AList.update ''value'' (VList (map VString (Set_List (flt_values f)))) item
      in VMap item)"

definition getDashboardFilters :: "ResourceData \<Rightarrow> val list" where
  "getDashboardFilters d =
     (let filters = Set_List (filter_set d);
          filter_list = replicate (length filters) VNil
      in for_range filter_body 0 filters filter_list)"

text \<open>
  \<open>getPayloadDashboard\<close> in three parts: the local \<open>all_filters\<close> (lines 155 to 164),
  the map \<open>payload\<close> handed to the encoder (lines 149 to 171) and the call of
  \<open>json.Marshal\<close> (line 173).
\<close>

definition all_filters :: "ResourceData \<Rightarrow> go_map" where
  "all_filters d =
     (let all_filters = [];
          filters = getDashboardFilters d;
          all_filters = (if length filters > 0
                         then AList.update ''sources'' (VList filters) all_filters else all_filters);
          variables = getDashboardVariables d;
          all_filters = (if length variables > 0
                         then AList.update ''variables'' (VList variables) all_filters else all_filters);
          time = getDashboardTime d;
          all_filters = (if len_map time > 0
                         then AList.update ''time'' (case time of None \<Rightarrow> VNil | Some t \<Rightarrow> VMap t)
                                all_filters
                         else all_filters)
      in all_filters)"

definition dashboardPayload :: "ResourceData \<Rightarrow> go_map" where
  "dashboardPayload d =
     (let payload = [(''name'', VString (name d)),
                     (''description'', VString (Get_string (description d))),
                     (''groupId'', VString (dashboard_group d))];
          all_filters = all_filters d;
          payload = (if length all_filters > 0
                     then AList.update ''filters'' (VMap all_filters) payload else payload);
          charts = getDashboardCharts d;
          payload = (if length charts > 0
                     then AList.update ''charts'' (VList charts) payload else payload)
      in payload)"

text \<open>
  \<open>json.Marshal\<close> belongs to Go's standard library; it is a parameter that returns the
  bytes or the encoder's error.
\<close>

definition getPayloadDashboard :: "(val \<Rightarrow> error + string) \<Rightarrow> ResourceData \<Rightarrow> error + string" where
  "getPayloadDashboard Marshal d = Marshal (VMap (dashboardPayload d))"

subsection \<open>The lifecycle handlers\<close>

text \<open>
  \<open>resourceCreate\<close>, \<open>resourceRead\<close>, \<open>resourceUpdate\<close> and \<open>resourceDelete\<close> and the
  type \<open>signalformConfig\<close> are declared in other files of the package. The helpers are
  parameters: each takes its arguments and the state \<open>'w\<close> of everything it can touch (the
  remote API, the stored resource) and returns its \<open>error\<close> with the new state. Of the
  configuration only the field \<open>SfxToken\<close> is read.
\<close>

record signalformConfig =
  SfxToken :: string

type_synonym 'w payload_helper =
  "string \<Rightarrow> string \<Rightarrow> string \<Rightarrow> ResourceData \<Rightarrow> 'w \<Rightarrow> error option \<times> 'w"

type_synonym 'w plain_helper =
  "string \<Rightarrow> string \<Rightarrow> ResourceData \<Rightarrow> 'w \<Rightarrow> error option \<times> 'w"

definition DASHBOARD_API_URL :: string where
  "DASHBOARD_API_URL = ''https://api.signalfx.com/v2/dashboard''"

text \<open>\<open>fmt.Sprintf("%s/%s", a, b)\<close> and \<open>fmt.Errorf("Failed creating json payload: %s", e)\<close>.\<close>

definition Sprintf_slash :: "string \<Rightarrow> string \<Rightarrow> string" where
  "Sprintf_slash a b = a @ ''/'' @ b"

definition Errorf_payload :: "error \<Rightarrow> error" where
  "Errorf_payload e = ''Failed creating json payload: '' @ e"

definition dashboardCreate ::
  "'w payload_helper \<Rightarrow> (val \<Rightarrow> error + string) \<Rightarrow> ResourceData \<Rightarrow> signalformConfig \<Rightarrow> 'w
     \<Rightarrow> error option \<times> 'w" where
  "dashboardCreate resourceCreate Marshal d meta w =
     (let config = meta in
      case getPayloadDashboard Marshal d of
        Inl err \<Rightarrow> (Some (Errorf_payload err), w)
      | Inr payload \<Rightarrow> resourceCreate DASHBOARD_API_URL (SfxToken config) payload d w)"

definition dashboardRead ::
  "'w plain_helper \<Rightarrow> ResourceData \<Rightarrow> signalformConfig \<Rightarrow> 'w \<Rightarrow> error option \<times> 'w" where
  "dashboardRead resourceRead d meta w =
     (let config = meta;
          url = Sprintf_slash DASHBOARD_API_URL (resource_id d)
      in resourceRead url (SfxToken config) d w)"

definition dashboardUpdate ::
  "'w payload_helper \<Rightarrow> (val \<Rightarrow> error + string) \<Rightarrow> ResourceData \<Rightarrow> signalformConfig \<Rightarrow> 'w
     \<Rightarrow> error option \<times> 'w" where
  "dashboardUpdate resourceUpdate Marshal d meta w =
     (let config = meta in
      case getPayloadDashboard Marshal d of
        Inl err \<Rightarrow> (Some (Errorf_payload err), w)
      | Inr payload \<Rightarrow>
          (let url = Sprintf_slash DASHBOARD_API_URL (resource_id d)
           in resourceUpdate url (SfxToken config) payload d w))"

definition dashboardDelete ::
  "'w plain_helper \<Rightarrow> ResourceData \<Rightarrow> signalformConfig \<Rightarrow> 'w \<Rightarrow> error option \<times> 'w" where
  "dashboardDelete resourceDelete d meta w =
     (let config = meta;
          url = Sprintf_slash DASHBOARD_API_URL (resource_id d)
      in resourceDelete url (SfxToken config) d w)"

subsection \<open>Reading a payload\<close>

text \<open>The keys of a map, and the entries of a map that may be nil.\<close>

definition map_keys :: "go_map \<Rightarrow> string set" where
  "map_keys m = set (map fst m)"

definition entries :: "go_map option \<Rightarrow> go_map" where
  "entries m = (case m of None \<Rightarrow> [] | Some al \<Rightarrow> al)"

text \<open>The number a JSON reader sees for a Go \<open>int\<close>: its signed value.\<close>

definition json_number :: "val \<Rightarrow> int option" where
  "json_number v = (case v of VInt n \<Rightarrow> Some (sint n) | _ \<Rightarrow> None)"

text \<open>
  The round trip of the specification: the payload is read back into a resource description
  under the renamed keys (\<open>groupId\<close> to \<open>dashboard_group\<close>, \<open>chartId\<close> to
  \<open>chart_id\<close>, \<open>value\<close> to \<open>values\<close>, \<open>NOT\<close> to \<open>negated\<close>, \<open>start\<close> and
  \<open>end\<close> to \<open>time_start\<close> and \<open>time_end\<close>), every value taken as it stands. These
  definitions follow the specification's sentence, not the source, which has no reader.
\<close>

fun as_string :: "val \<Rightarrow> string option" where
  "as_string (VString s) = Some s"
| "as_string _ = None"

fun as_int :: "val \<Rightarrow> go_int option" where
  "as_int (VInt n) = Some n"
| "as_int _ = None"

fun as_bool :: "val \<Rightarrow> bool option" where
  "as_bool (VBool b) = Some b"
| "as_bool _ = None"

fun as_list :: "val \<Rightarrow> val list option" where
  "as_list (VList vs) = Some vs"
| "as_list _ = None"

fun as_map :: "val \<Rightarrow> go_map option" where
  "as_map (VMap m) = Some m"
| "as_map _ = None"

definition field :: "go_map \<Rightarrow> string \<Rightarrow> (val \<Rightarrow> 'a option) \<Rightarrow> 'a option" where
  "field m k as = Option.bind (map_of m k) as"

definition spec_read_set :: "(val \<Rightarrow> 'a option) \<Rightarrow> val option \<Rightarrow> 'a schema_Set option" where
  "spec_read_set rd v =
     (case v of
        None \<Rightarrow> Some (SchemaSet [])
      | Some l \<Rightarrow> Option.bind (as_list l) (\<lambda>vs. map_option SchemaSet (those (map rd vs))))"

definition spec_read_chart :: "val \<Rightarrow> chart_item option" where
  "spec_read_chart v =
     Option.bind (as_map v) (\<lambda>m.
     Option.bind (field m ''chartId'' as_string) (\<lambda>c.
     Option.bind (field m ''row'' as_int) (\<lambda>r.
     Option.bind (field m ''column'' as_int) (\<lambda>cl.
     Option.bind (field m ''width'' as_int) (\<lambda>w.
     Option.bind (field m ''height'' as_int) (\<lambda>h.
       Some \<lparr>chart_id = c, chart_row = r, chart_column = cl, chart_width = w,
             chart_height = h\<rparr>))))))"

definition spec_read_variable :: "val \<Rightarrow> variable_item option" where
  "spec_read_variable v =
     Option.bind (as_map v) (\<lambda>m.
     Option.bind (field m ''property'' as_string) (\<lambda>p.
     Option.bind (field m ''alias'' as_string) (\<lambda>a.
     Option.bind (spec_read_set as_string (map_of m ''value'')) (\<lambda>vs.
       Some \<lparr>var_property = p, var_alias = a, var_values = vs\<rparr>))))"

definition spec_read_filter :: "val \<Rightarrow> filter_item option" where
  "spec_read_filter v =
     Option.bind (as_map v) (\<lambda>m.
     Option.bind (field m ''property'' as_string) (\<lambda>p.
     Option.bind (field m ''NOT'' as_bool) (\<lambda>n.
     Option.bind (spec_read_set as_string (map_of m ''value'')) (\<lambda>vs.
       Some \<lparr>flt_property = p, flt_negated = n, flt_values = vs\<rparr>))))"

definition spec_read_submap :: "val option \<Rightarrow> go_map option" where
  "spec_read_submap v = (case v of None \<Rightarrow> Some [] | Some m \<Rightarrow> as_map m)"

definition spec_read_time :: "val option \<Rightarrow> go_int option option" where
  "spec_read_time v = (case v of None \<Rightarrow> Some None | Some n \<Rightarrow> map_option Some (as_int n))"

definition spec_reparse :: "go_map \<Rightarrow> ResourceData option" where
  "spec_reparse p =
     Option.bind (field p ''name'' as_string) (\<lambda>n.
     Option.bind (field p ''description'' as_string) (\<lambda>ds.
     Option.bind (field p ''groupId'' as_string) (\<lambda>g.
     Option.bind (spec_read_set spec_read_chart (map_of p ''charts'')) (\<lambda>cs.
     Option.bind (spec_read_submap (map_of p ''filters'')) (\<lambda>af.
     Option.bind (spec_read_set spec_read_filter (map_of af ''sources'')) (\<lambda>fs.
     Option.bind (spec_read_set spec_read_variable (map_of af ''variables'')) (\<lambda>vs.
     Option.bind (spec_read_submap (map_of af ''time'')) (\<lambda>tm.
     Option.bind (spec_read_time (map_of tm ''start'')) (\<lambda>ts.
     Option.bind (spec_read_time (map_of tm ''end'')) (\<lambda>te.
       Some \<lparr>resource_id = [], synced = 0, last_updated = 0, name = n, description = Some ds,
             dashboard_group = g, time_start = ts, time_end = te, chart = cs, variable = vs,
             filter_set = fs\<rparr>))))))))))"

text \<open>
  The specification's round trip property: every field value that the translator reads is
  the same in the description read back.
\<close>

definition spec_roundtrip_lossless :: "ResourceData \<Rightarrow> bool" where
  "spec_roundtrip_lossless d =
     (case spec_reparse (dashboardPayload d) of
        None \<Rightarrow> False
      | Some r \<Rightarrow>
          name r = name d \<and>
          Get_string (description r) = Get_string (description d) \<and>
          dashboard_group r = dashboard_group d \<and>
          Get_int (time_start r) = Get_int (time_start d) \<and>
          Get_int (time_end r) = Get_int (time_end d) \<and>
          chart r = chart d \<and> variable r = variable d \<and> filter_set r = filter_set d)"

text \<open>
  A time bound as lines 178 to 183 store it: the Go product with 1000 when \<open>GetOk\<close>
  reports the key, nothing otherwise.
\<close>

definition scaled_bound :: "go_int option \<Rightarrow> go_int option" where
  "scaled_bound f = (case GetOk_int f of (v, ok) \<Rightarrow> if ok then Some (v * 1000) else None)"

subsection \<open>Sample inputs\<close>

definition empty_dashboard :: ResourceData where
  "empty_dashboard =
     \<lparr>resource_id = ''Abc123'', synced = 1, last_updated = 7, name = ''cpu'', description = None,
      dashboard_group = ''grp'', time_start = None, time_end = None, chart = SchemaSet [],
      variable = SchemaSet [], filter_set = SchemaSet []\<rparr>"

definition sample_chart :: chart_item where
  "sample_chart =
     \<lparr>chart_id = ''abc'', chart_row = 0, chart_column = 0, chart_width = 12, chart_height = 1\<rparr>"

definition sample_variable :: variable_item where
  "sample_variable =
     \<lparr>var_property = ''region'', var_alias = ''Region'', var_values = SchemaSet [''eu'', ''us'']\<rparr>"

definition sample_filter :: filter_item where
  "sample_filter =
     \<lparr>flt_property = ''host'', flt_negated = True, flt_values = SchemaSet [''a'', ''b'']\<rparr>"

definition full_dashboard :: ResourceData where
  "full_dashboard =
     empty_dashboard\<lparr>description := Some ''load'', time_start := Some 10, time_end := Some 20,
       chart := SchemaSet [sample_chart], variable := SchemaSet [sample_variable],
       filter_set := SchemaSet [sample_filter]\<rparr>"

definition zero_start_dashboard :: ResourceData where
  "zero_start_dashboard = empty_dashboard\<lparr>time_start := Some 0\<rparr>"

definition zero_end_dashboard :: ResourceData where
  "zero_end_dashboard = empty_dashboard\<lparr>time_start := Some 10, time_end := Some 0\<rparr>"

definition overflow_dashboard :: ResourceData where
  "overflow_dashboard = empty_dashboard\<lparr>time_start := Some 9223372036854776\<rparr>"

text \<open>Helpers that record each call in the state and return a fixed error.\<close>

datatype call = Call string string string "string option"

definition recording_payload_helper :: "string \<Rightarrow> error option \<Rightarrow> call list payload_helper" where
  "recording_payload_helper verb res url token payload d w =
     (res, w @ [Call verb url token (Some payload)])"

definition recording_plain_helper :: "string \<Rightarrow> error option \<Rightarrow> call list plain_helper" where
  "recording_plain_helper verb res url token d w = (res, w @ [Call verb url token None])"

definition sample_config :: signalformConfig where
  "sample_config = \<lparr>SfxToken = ''tok''\<rparr>"

section \<open>Properties\<close>

subsection \<open>The loop and the three list translators\<close>

lemma for_range_map:
  "length out = i + length xs \<Longrightarrow> for_range body i xs out = take i out @ map body xs"
proof (induction xs arbitrary: i out)
  case Nil
  then show ?case by simp
next
  case (Cons x xs)
  have "for_range body (Suc i) xs (out[i := body x]) = take (Suc i) (out[i := body x]) @ map body xs"
    using Cons.prems by (intro Cons.IH) simp
  moreover have "take (Suc i) (out[i := body x]) = take i out @ [body x]"
    using Cons.prems by (simp add: take_Suc_conv_app_nth)
  ultimately show ?case by simp
qed

lemma for_range_replicate: "for_range body 0 xs (replicate (length xs) z) = map body xs"
  by (simp add: for_range_map)

lemma getDashboardCharts_map: "getDashboardCharts d = map chart_body (Set_List (chart d))"
  by (simp add: getDashboardCharts_def for_range_replicate)

lemma getDashboardVariables_map:
  "getDashboardVariables d = map variable_body (Set_List (variable d))"
  by (simp add: getDashboardVariables_def for_range_replicate)

lemma getDashboardFilters_map:
  "getDashboardFilters d = map filter_body (Set_List (filter_set d))"
  by (simp add: getDashboardFilters_def for_range_replicate)

lemma chart_body_eq:
  "chart_body c =
     VMap [(''chartId'', VString (chart_id c)), (''row'', VInt (chart_row c)),
           (''column'', VInt (chart_column c)), (''height'', VInt (chart_height c)),
           (''width'', VInt (chart_width c))]"
  by (simp add: chart_body_def)

lemma variable_body_eq:
  "variable_body v =
     VMap [(''property'', VString (var_property v)), (''alias'', VString (var_alias v)),
           (''value'', VList (map VString (Set_List (var_values v))))]"
  by (simp add: variable_body_def)

lemma filter_body_eq:
  "filter_body f =
     VMap [(''property'', VString (flt_property f)), (''NOT'', VBool (flt_negated f)),
           (''value'', VList (map VString (Set_List (flt_values f))))]"
  by (simp add: filter_body_def)

subsection \<open>The time map\<close>

lemma getDashboardTime_eq:
  "getDashboardTime d =
     (let s = GetOk_int (time_start d); e = GetOk_int (time_end d);
          t = (if snd s then [(''start'', VInt (fst s * 1000))] else []) @
              (if snd e then [(''end'', VInt (fst e * 1000))] else [])
      in if t = [] then None else Some t)"
  by (simp add: getDashboardTime_def Let_def split: prod.splits)

lemma len_map_time:
  "len_map (getDashboardTime d) > 0 \<longleftrightarrow> snd (GetOk_int (time_start d)) \<or> snd (GetOk_int (time_end d))"
  by (simp add: getDashboardTime_eq len_map_def Let_def)

subsection \<open>The payload\<close>

lemma all_filters_eq:
  "all_filters d =
     (if Set_List (filter_set d) = [] then []
      else [(''sources'', VList (map filter_body (Set_List (filter_set d))))]) @
     (if Set_List (variable d) = [] then []
      else [(''variables'', VList (map variable_body (Set_List (variable d))))]) @
     (case getDashboardTime d of None \<Rightarrow> [] | Some t \<Rightarrow> [(''time'', VMap t)])"
proof -
  have t: "getDashboardTime d = Some t \<Longrightarrow> t \<noteq> []" for t
    by (auto simp: getDashboardTime_eq Let_def split: if_splits)
  show ?thesis
    by (auto simp: all_filters_def getDashboardFilters_map getDashboardVariables_map len_map_def
        dest: t split: option.splits)
qed

lemma dashboardPayload_eq:
  "dashboardPayload d =
     [(''name'', VString (name d)), (''description'', VString (Get_string (description d))),
      (''groupId'', VString (dashboard_group d))] @
     (if all_filters d = [] then [] else [(''filters'', VMap (all_filters d))]) @
     (if Set_List (chart d) = [] then []
      else [(''charts'', VList (map chart_body (Set_List (chart d))))])"
  by (simp add: dashboardPayload_def getDashboardCharts_map)

lemma all_filters_empty:
  "all_filters d = [] \<longleftrightarrow>
     Set_List (filter_set d) = [] \<and> Set_List (variable d) = [] \<and> getDashboardTime d = None"
  by (simp add: all_filters_eq split: option.splits)

lemma getDashboardTime_None:
  "getDashboardTime d = None \<longleftrightarrow> \<not> snd (GetOk_int (time_start d)) \<and> \<not> snd (GetOk_int (time_end d))"
  by (simp add: getDashboardTime_eq Let_def)

lemmas sample_defs = empty_dashboard_def full_dashboard_def sample_chart_def sample_variable_def
  sample_filter_def sample_config_def

lemma map_of_payload_filters:
  "map_of (dashboardPayload d) ''filters'' =
     (if all_filters d = [] then None else Some (VMap (all_filters d)))"
  by (simp add: dashboardPayload_eq)

lemma map_of_payload_charts:
  "map_of (dashboardPayload d) ''charts'' =
     (if Set_List (chart d) = [] then None
      else Some (VList (map chart_body (Set_List (chart d)))))"
  by (simp add: dashboardPayload_eq)

lemma map_keys_payload:
  "map_keys (dashboardPayload d) =
     {''name'', ''description'', ''groupId''} \<union>
     (if all_filters d = [] then {} else {''filters''}) \<union>
     (if Set_List (chart d) = [] then {} else {''charts''})"
  by (auto simp: dashboardPayload_eq map_keys_def)

lemma map_keys_all_filters:
  "map_keys (all_filters d) =
     (if Set_List (filter_set d) = [] then {} else {''sources''}) \<union>
     (if Set_List (variable d) = [] then {} else {''variables''}) \<union>
     (if getDashboardTime d = None then {} else {''time''})"
  by (auto simp: all_filters_eq map_keys_def split: option.splits)

lemma map_of_all_filters_sources:
  "map_of (all_filters d) ''sources'' =
     (if Set_List (filter_set d) = [] then None
      else Some (VList (map filter_body (Set_List (filter_set d)))))"
  by (simp add: all_filters_eq split: option.splits)

lemma map_of_all_filters_variables:
  "map_of (all_filters d) ''variables'' =
     (if Set_List (variable d) = [] then None
      else Some (VList (map variable_body (Set_List (variable d)))))"
  by (simp add: all_filters_eq split: option.splits)

lemma map_of_all_filters_time:
  "map_of (all_filters d) ''time'' = map_option VMap (getDashboardTime d)"
  by (simp add: all_filters_eq split: option.splits)

subsection \<open>Scaling a time bound\<close>

lemma sint_times_1000:
  fixes v :: go_int
  assumes "- (2 ^ 63) \<le> sint v * 1000" "sint v * 1000 < 2 ^ 63"
  shows "sint (v * 1000) = sint v * 1000"
proof -
  have "sint (v * 1000) = signed_take_bit 63 (sint v * sint (1000 :: go_int))"
    by (simp add: sint_word_ariths)
  also have "sint (1000 :: go_int) = 1000" by simp
  also have "signed_take_bit 63 (sint v * 1000) = sint v * 1000"
    using assms by (simp add: signed_take_bit_int_eq_self)
  finally show ?thesis .
qed

subsection \<open>Reading the payload back\<close>

lemma those_map_Some:
  "(\<And>x. rd (f x) = Some x) \<Longrightarrow> those (map (rd \<circ> f) xs) = Some xs"
  by (induction xs) simp_all

lemma spec_read_set_strings:
  "spec_read_set as_string (Some (VList (map VString (Set_List s)))) = Some s"
  by (simp add: spec_read_set_def those_map_Some)

lemma spec_read_chart_body: "spec_read_chart (chart_body c) = Some c"
  by (simp add: spec_read_chart_def chart_body_eq field_def)

lemma spec_read_variable_body: "spec_read_variable (variable_body v) = Some v"
  by (simp add: spec_read_variable_def variable_body_eq field_def spec_read_set_strings)

lemma spec_read_filter_body: "spec_read_filter (filter_body f) = Some f"
  by (simp add: spec_read_filter_def filter_body_eq field_def spec_read_set_strings)

lemma spec_read_charts:
  "spec_read_set spec_read_chart (map_of (dashboardPayload d) ''charts'') = Some (chart d)"
proof (cases "Set_List (chart d) = []")
  case True
  then have "chart d = SchemaSet []" by (cases "chart d") simp
  with True show ?thesis by (simp add: map_of_payload_charts spec_read_set_def)
next
  case False
  then show ?thesis
    by (simp add: map_of_payload_charts spec_read_set_def those_map_Some spec_read_chart_body)
qed

lemma spec_read_sources:
  "spec_read_set spec_read_filter (map_of (all_filters d) ''sources'') = Some (filter_set d)"
proof (cases "Set_List (filter_set d) = []")
  case True
  then have "filter_set d = SchemaSet []" by (cases "filter_set d") simp
  with True show ?thesis by (simp add: map_of_all_filters_sources spec_read_set_def)
next
  case False
  then show ?thesis
    by (simp add: map_of_all_filters_sources spec_read_set_def those_map_Some spec_read_filter_body)
qed

lemma spec_read_variables:
  "spec_read_set spec_read_variable (map_of (all_filters d) ''variables'') = Some (variable d)"
proof (cases "Set_List (variable d) = []")
  case True
  then have "variable d = SchemaSet []" by (cases "variable d") simp
  with True show ?thesis by (simp add: map_of_all_filters_variables spec_read_set_def)
next
  case False
  then show ?thesis
    by (simp add: map_of_all_filters_variables spec_read_set_def those_map_Some
        spec_read_variable_body)
qed

lemma spec_read_filters_submap:
  "spec_read_submap (map_of (dashboardPayload d) ''filters'') = Some (all_filters d)"
  by (simp add: map_of_payload_filters spec_read_submap_def)

lemma spec_read_time_submap:
  "spec_read_submap (map_of (all_filters d) ''time'') = Some (entries (getDashboardTime d))"
  by (simp add: map_of_all_filters_time spec_read_submap_def entries_def split: option.splits)

lemma spec_read_time_start:
  "spec_read_time (map_of (entries (getDashboardTime d)) ''start'') = Some (scaled_bound (time_start d))"
  by (simp add: getDashboardTime_eq entries_def Let_def spec_read_time_def scaled_bound_def
      split: prod.splits)

lemma spec_read_time_end:
  "spec_read_time (map_of (entries (getDashboardTime d)) ''end'') = Some (scaled_bound (time_end d))"
  by (simp add: getDashboardTime_eq entries_def Let_def spec_read_time_def scaled_bound_def
      split: prod.splits)

lemma spec_reparse_payload:
  "spec_reparse (dashboardPayload d) =
     Some \<lparr>resource_id = [], synced = 0, last_updated = 0, name = name d,
           description = Some (Get_string (description d)),
           dashboard_group = dashboard_group d, time_start = scaled_bound (time_start d),
           time_end = scaled_bound (time_end d), chart = chart d, variable = variable d,
           filter_set = filter_set d\<rparr>"
proof -
  have base: "field (dashboardPayload d) ''name'' as_string = Some (name d)"
    "field (dashboardPayload d) ''description'' as_string = Some (Get_string (description d))"
    "field (dashboardPayload d) ''groupId'' as_string = Some (dashboard_group d)"
    by (simp_all add: field_def dashboardPayload_eq)
  show ?thesis
    unfolding spec_reparse_def
    by (simp add: base spec_read_charts spec_read_filters_submap spec_read_sources
        spec_read_variables spec_read_time_submap spec_read_time_start spec_read_time_end)
qed

subsection \<open>Claims\<close>

text \<open>
  Claim C1. The map that \<open>getPayloadDashboard\<close> encodes always has the keys \<open>name\<close>,
  \<open>description\<close> and \<open>groupId\<close> (the value of \<open>dashboard_group\<close>). It has the key
  \<open>filters\<close> exactly when the description has a filter, a variable or a time bound that
  \<open>GetOk\<close> reports, and then \<open>filters\<close> holds exactly those of \<open>sources\<close>,
  \<open>variables\<close> and \<open>time\<close> that are non-empty. It has the key \<open>charts\<close> exactly when the
  chart set is non-empty. No key occurs twice.
\<close>

theorem getPayloadDashboard_keys:
  "getPayloadDashboard Marshal d = Marshal (VMap (dashboardPayload d)) \<and>
   (let p = dashboardPayload d;
        has_sources = (Set_List (filter_set d) \<noteq> []);
        has_variables = (Set_List (variable d) \<noteq> []);
        has_time = (snd (GetOk_int (time_start d)) \<or> snd (GetOk_int (time_end d)));
        has_charts = (Set_List (chart d) \<noteq> [])
    in distinct (map fst p) \<and>
       map_of p ''name'' = Some (VString (name d)) \<and>
       map_of p ''description'' = Some (VString (Get_string (description d))) \<and>
       map_of p ''groupId'' = Some (VString (dashboard_group d)) \<and>
       (''filters'' \<in> map_keys p \<longleftrightarrow> has_sources \<or> has_variables \<or> has_time) \<and>
       (has_sources \<or> has_variables \<or> has_time \<longrightarrow>
          (\<exists>af. map_of p ''filters'' = Some (VMap af) \<and> distinct (map fst af) \<and>
             map_keys af \<subseteq> {''sources'', ''variables'', ''time''} \<and>
             (''sources'' \<in> map_keys af \<longleftrightarrow> has_sources) \<and>
             (''variables'' \<in> map_keys af \<longleftrightarrow> has_variables) \<and>
             (''time'' \<in> map_keys af \<longleftrightarrow> has_time))) \<and>
       (''charts'' \<in> map_keys p \<longleftrightarrow> has_charts))"
proof -
  have af: "all_filters d = [] \<longleftrightarrow>
      \<not> (Set_List (filter_set d) \<noteq> [] \<or> Set_List (variable d) \<noteq> [] \<or>
         snd (GetOk_int (time_start d)) \<or> snd (GetOk_int (time_end d)))"
    by (auto simp: all_filters_empty getDashboardTime_None)
  have dp: "distinct (map fst (dashboardPayload d))"
    by (simp add: dashboardPayload_eq)
  have da: "distinct (map fst (all_filters d))"
    by (simp add: all_filters_eq split: option.splits)
  have keys: "''filters'' \<in> map_keys (dashboardPayload d) \<longleftrightarrow> all_filters d \<noteq> []"
    "''charts'' \<in> map_keys (dashboardPayload d) \<longleftrightarrow> Set_List (chart d) \<noteq> []"
    by (simp_all add: map_keys_payload)
  have base: "map_of (dashboardPayload d) ''name'' = Some (VString (name d))"
    "map_of (dashboardPayload d) ''description'' = Some (VString (Get_string (description d)))"
    "map_of (dashboardPayload d) ''groupId'' = Some (VString (dashboard_group d))"
    by (simp_all add: dashboardPayload_eq)
  have sub: "map_keys (all_filters d) \<subseteq> {''sources'', ''variables'', ''time''}"
    "''sources'' \<in> map_keys (all_filters d) \<longleftrightarrow> Set_List (filter_set d) \<noteq> []"
    "''variables'' \<in> map_keys (all_filters d) \<longleftrightarrow> Set_List (variable d) \<noteq> []"
    "''time'' \<in> map_keys (all_filters d) \<longleftrightarrow>
       snd (GetOk_int (time_start d)) \<or> snd (GetOk_int (time_end d))"
    by (auto simp: map_keys_all_filters getDashboardTime_None)
  show ?thesis
    unfolding Let_def using af dp da keys base sub
    by (simp add: getPayloadDashboard_def map_of_payload_filters)
qed

text \<open>
  At the sample with one filter, one variable, both time bounds and one chart all five keys
  are there; the dashboard with none of them has neither \<open>filters\<close> nor \<open>charts\<close>.
\<close>

theorem getPayloadDashboard_keys_witness:
  "map_of (dashboardPayload full_dashboard) ''filters'' =
     Some (VMap [(''sources'', VList [VMap [(''property'', VString ''host''), (''NOT'', VBool True),
                    (''value'', VList [VString ''a'', VString ''b''])]]),
                 (''variables'', VList [VMap [(''property'', VString ''region''),
                    (''alias'', VString ''Region''),
                    (''value'', VList [VString ''eu'', VString ''us''])]]),
                 (''time'', VMap [(''start'', VInt 10000), (''end'', VInt 20000)])]) \<and>
   map_keys (dashboardPayload full_dashboard) =
     {''name'', ''description'', ''groupId'', ''filters'', ''charts''} \<and>
   map_keys (dashboardPayload empty_dashboard) = {''name'', ''description'', ''groupId''}"
  using getPayloadDashboard_keys [of "\<lambda>v. Inr []" full_dashboard]
    getPayloadDashboard_keys [of "\<lambda>v. Inr []" empty_dashboard]
  by (simp add: sample_defs dashboardPayload_eq all_filters_eq getDashboardTime_eq GetOk_int_def
      filter_body_eq variable_body_eq chart_body_eq map_keys_def insert_commute)

text \<open>
  Claim C2, as stated: reading the payload back under the renamed keys gives every field its
  value in the description. It fails at the sample dashboard, whose \<open>time_start\<close> of 10
  and \<open>time_end\<close> of 20 come back as 10000 and 20000.
\<close>

theorem roundtrip_counterexample: "\<not> spec_roundtrip_lossless full_dashboard"
  by (simp add: spec_roundtrip_lossless_def spec_reparse_payload scaled_bound_def GetOk_int_def
      Get_int_def sample_defs)

text \<open>
  Claim C2, amended. Reading the payload back under the renamed keys succeeds for every
  description and gives \<open>name\<close>, \<open>description\<close> (the empty string when unset),
  \<open>dashboard_group\<close> and every chart, variable and filter their values in the
  description. The two time bounds are not kept: each comes back as the product the
  translator stored, and is absent when \<open>GetOk\<close> reports the bound unset.
\<close>

theorem roundtrip_except_time:
  "\<exists>r. spec_reparse (dashboardPayload d) = Some r \<and>
       name r = name d \<and>
       Get_string (description r) = Get_string (description d) \<and>
       dashboard_group r = dashboard_group d \<and>
       chart r = chart d \<and> variable r = variable d \<and> filter_set r = filter_set d \<and>
       time_start r = scaled_bound (time_start d) \<and>
       time_end r = scaled_bound (time_end d)"
  by (simp add: spec_reparse_payload Get_string_def)

text \<open>The sample dashboard read back.\<close>

theorem roundtrip_except_time_witness:
  "spec_reparse (dashboardPayload full_dashboard) =
     Some \<lparr>resource_id = [], synced = 0, last_updated = 0, name = ''cpu'',
           description = Some ''load'', dashboard_group = ''grp'', time_start = Some 10000,
           time_end = Some 20000, chart = SchemaSet [sample_chart],
           variable = SchemaSet [sample_variable], filter_set = SchemaSet [sample_filter]\<rparr>"
  using roundtrip_except_time [of full_dashboard]
  by (simp add: spec_reparse_payload scaled_bound_def GetOk_int_def Get_string_def
      empty_dashboard_def full_dashboard_def)

text \<open>
  Claim C3, as stated: the \<open>start\<close> key is \<open>time_start\<close> times 1000. Go's \<open>int\<close>
  wraps: at a \<open>time_start\<close> of 9223372036854776 seconds the product 9223372036854776000
  is beyond the largest \<open>int\<close>, and the payload carries -9223372036854775616.
\<close>

theorem time_start_overflow_counterexample:
  "time_start overflow_dashboard = Some 9223372036854776 \<and>
   sint (9223372036854776 :: go_int) * 1000 = 9223372036854776000 \<and>
   Option.bind (map_of (entries (getDashboardTime overflow_dashboard)) ''start'') json_number =
     Some (- 9223372036854775616) \<and>
   Option.bind (map_of (entries (getDashboardTime overflow_dashboard)) ''start'') json_number \<noteq>
     Some (sint (9223372036854776 :: go_int) * 1000)"
  by (simp add: overflow_dashboard_def sample_defs getDashboardTime_eq GetOk_int_def entries_def
      json_number_def)

text \<open>
  Claim C3, amended. The time map has no key but \<open>start\<close> and \<open>end\<close>. \<open>start\<close> is
  there exactly when \<open>GetOk\<close> reports \<open>time_start\<close>, \<open>end\<close> exactly when it reports
  \<open>time_end\<close>, each whatever the other is, so that none, either or both occur. Where the
  product of the bound with 1000 fits the 64-bit \<open>int\<close>, the number under the key is that
  product; 10 and 20 give 10000 and 20000.
\<close>

theorem time_bounds_scaled:
  "(let t = entries (getDashboardTime d) in
      map_keys t \<subseteq> {''start'', ''end''} \<and>
      (''start'' \<in> map_keys t \<longleftrightarrow> snd (GetOk_int (time_start d))) \<and>
      (''end'' \<in> map_keys t \<longleftrightarrow> snd (GetOk_int (time_end d))) \<and>
      (\<forall>v. time_start d = Some v \<and> v \<noteq> 0 \<and> - (2 ^ 63) \<le> sint v * 1000 \<and> sint v * 1000 < 2 ^ 63
         \<longrightarrow> Option.bind (map_of t ''start'') json_number = Some (sint v * 1000)) \<and>
      (\<forall>v. time_end d = Some v \<and> v \<noteq> 0 \<and> - (2 ^ 63) \<le> sint v * 1000 \<and> sint v * 1000 < 2 ^ 63
         \<longrightarrow> Option.bind (map_of t ''end'') json_number = Some (sint v * 1000))) \<and>
   getDashboardTime (d\<lparr>time_start := None, time_end := None\<rparr>) = None \<and>
   getDashboardTime (d\<lparr>time_start := Some 10, time_end := None\<rparr>) =
     Some [(''start'', VInt 10000)] \<and>
   getDashboardTime (d\<lparr>time_start := None, time_end := Some 20\<rparr>) =
     Some [(''end'', VInt 20000)] \<and>
   getDashboardTime (d\<lparr>time_start := Some 10, time_end := Some 20\<rparr>) =
     Some [(''start'', VInt 10000), (''end'', VInt 20000)]"
proof -
  let ?t = "entries (getDashboardTime d)"
  have t: "?t = (if snd (GetOk_int (time_start d))
                 then [(''start'', VInt (fst (GetOk_int (time_start d)) * 1000))] else []) @
                (if snd (GetOk_int (time_end d))
                 then [(''end'', VInt (fst (GetOk_int (time_end d)) * 1000))] else [])"
    by (simp add: getDashboardTime_eq entries_def Let_def)
  have keys: "map_keys ?t \<subseteq> {''start'', ''end''}"
    "''start'' \<in> map_keys ?t \<longleftrightarrow> snd (GetOk_int (time_start d))"
    "''end'' \<in> map_keys ?t \<longleftrightarrow> snd (GetOk_int (time_end d))"
    unfolding t by (auto simp: map_keys_def)
  have s: "Option.bind (map_of ?t ''start'') json_number = Some (sint v * 1000)"
    if "time_start d = Some v" "v \<noteq> 0" "- (2 ^ 63) \<le> sint v * 1000" "sint v * 1000 < 2 ^ 63" for v
    unfolding t using that by (simp add: GetOk_int_def json_number_def sint_times_1000)
  have e: "Option.bind (map_of ?t ''end'') json_number = Some (sint v * 1000)"
    if "time_end d = Some v" "v \<noteq> 0" "- (2 ^ 63) \<le> sint v * 1000" "sint v * 1000 < 2 ^ 63" for v
    unfolding t using that by (simp add: GetOk_int_def json_number_def sint_times_1000)
  have ex: "getDashboardTime (d\<lparr>time_start := None, time_end := None\<rparr>) = None"
    "getDashboardTime (d\<lparr>time_start := Some 10, time_end := None\<rparr>) = Some [(''start'', VInt 10000)]"
    "getDashboardTime (d\<lparr>time_start := None, time_end := Some 20\<rparr>) = Some [(''end'', VInt 20000)]"
    "getDashboardTime (d\<lparr>time_start := Some 10, time_end := Some 20\<rparr>) =
       Some [(''start'', VInt 10000), (''end'', VInt 20000)]"
    by (simp_all add: getDashboardTime_eq GetOk_int_def)
  show ?thesis
    unfolding Let_def using keys s e ex by blast
qed

text \<open>The sample dashboard, with \<open>time_start\<close> 10 and \<open>time_end\<close> 20.\<close>

theorem time_bounds_scaled_witness:
  "time_start full_dashboard = Some 10 \<and> time_end full_dashboard = Some 20 \<and>
   (10 :: go_int) \<noteq> 0 \<and> (20 :: go_int) \<noteq> 0 \<and>
   - (2 ^ 63) \<le> sint (10 :: go_int) * 1000 \<and> sint (10 :: go_int) * 1000 < 2 ^ 63 \<and>
   - (2 ^ 63) \<le> sint (20 :: go_int) * 1000 \<and> sint (20 :: go_int) * 1000 < 2 ^ 63 \<and>
   getDashboardTime full_dashboard = Some [(''start'', VInt 10000), (''end'', VInt 20000)] \<and>
   Option.bind (map_of (entries (getDashboardTime full_dashboard)) ''start'') json_number = Some 10000 \<and>
   Option.bind (map_of (entries (getDashboardTime full_dashboard)) ''end'') json_number = Some 20000"
  using time_bounds_scaled [of full_dashboard]
  by (simp add: sample_defs getDashboardTime_eq GetOk_int_def entries_def json_number_def)

text \<open>
  Claim C4. When building the payload fails, create and update return an error at once, with
  the state untouched whatever the HTTP helper is: the helper is not called. When it
  succeeds, they return what the helper returns, error and state, unchanged.
\<close>

theorem create_update_errors:
  "(getPayloadDashboard Marshal d = Inl e \<longrightarrow>
      dashboardCreate resourceCreate Marshal d meta w = (Some (Errorf_payload e), w) \<and>
      dashboardUpdate resourceUpdate Marshal d meta w = (Some (Errorf_payload e), w)) \<and>
   (getPayloadDashboard Marshal d = Inr payload \<longrightarrow>
      dashboardCreate resourceCreate Marshal d meta w =
        resourceCreate DASHBOARD_API_URL (SfxToken meta) payload d w \<and>
      dashboardUpdate resourceUpdate Marshal d meta w =
        resourceUpdate (Sprintf_slash DASHBOARD_API_URL (resource_id d)) (SfxToken meta) payload d w)"
  by (simp add: dashboardCreate_def dashboardUpdate_def)

text \<open>
  With a helper that records its calls: after a failing encoder the record is empty; after
  a working one it holds the single call, and the helper's error 404 is what create returns.
\<close>

theorem create_update_errors_witness:
  "getPayloadDashboard (\<lambda>v. Inl ''unsupported type'') full_dashboard = Inl ''unsupported type'' \<and>
   dashboardCreate (recording_payload_helper ''create'' None) (\<lambda>v. Inl ''unsupported type'') full_dashboard
       sample_config [] =
     (Some ''Failed creating json payload: unsupported type'', []) \<and>
   dashboardUpdate (recording_payload_helper ''update'' None) (\<lambda>v. Inl ''unsupported type'') full_dashboard
       sample_config [] =
     (Some ''Failed creating json payload: unsupported type'', []) \<and>
   getPayloadDashboard (\<lambda>v. Inr ''{}'') full_dashboard = Inr ''{}'' \<and>
   dashboardCreate (recording_payload_helper ''create'' (Some ''404'')) (\<lambda>v. Inr ''{}'') full_dashboard
       sample_config [] =
     (Some ''404'', [Call ''create'' ''https://api.signalfx.com/v2/dashboard'' ''tok'' (Some ''{}'')]) \<and>
   dashboardUpdate (recording_payload_helper ''update'' None) (\<lambda>v. Inr ''{}'') full_dashboard
       sample_config [] =
     (None, [Call ''update'' ''https://api.signalfx.com/v2/dashboard/Abc123'' ''tok'' (Some ''{}'')])"
  using create_update_errors [of "\<lambda>v. Inl ''unsupported type''" full_dashboard "''unsupported type''"
      "recording_payload_helper ''create'' None" sample_config "[]"
      "recording_payload_helper ''update'' None" "''{}''"]
    create_update_errors [of "\<lambda>v. Inr ''{}''" full_dashboard "''unsupported type''"
      "recording_payload_helper ''create'' (Some ''404'')" sample_config "[]"
      "recording_payload_helper ''update'' None" "''{}''"]
  by (simp add: getPayloadDashboard_def dashboardCreate_def dashboardUpdate_def
      recording_payload_helper_def Errorf_payload_def DASHBOARD_API_URL_def Sprintf_slash_def
      sample_defs)

text \<open>
  Claim C5. For the filter at position \<open>i\<close> of the description, element \<open>i\<close> of the
  \<open>sources\<close> array under \<open>filters\<close> is a map with exactly the keys \<open>property\<close>,
  \<open>NOT\<close> and \<open>value\<close>: \<open>property\<close> is the filter's property, \<open>NOT\<close> its negated
  flag and \<open>value\<close> its values as a list. The array has one element for each filter.
\<close>

theorem filter_entries_renamed:
  assumes "i < length (Set_List (filter_set d))"
  shows "\<exists>af srcs item.
           map_of (dashboardPayload d) ''filters'' = Some (VMap af) \<and>
           map_of af ''sources'' = Some (VList srcs) \<and>
           srcs = getDashboardFilters d \<and>
           length srcs = length (Set_List (filter_set d)) \<and>
           srcs ! i = VMap item \<and>
           map_keys item = {''property'', ''NOT'', ''value''} \<and>
           map_of item ''property'' = Some (VString (flt_property (Set_List (filter_set d) ! i))) \<and>
           map_of item ''NOT'' = Some (VBool (flt_negated (Set_List (filter_set d) ! i))) \<and>
           map_of item ''value'' =
             Some (VList (map VString (Set_List (flt_values (Set_List (filter_set d) ! i)))))"
proof -
  let ?fs = "Set_List (filter_set d)"
  from assms have ne: "?fs \<noteq> []" by auto
  then have af: "all_filters d \<noteq> []" by (simp add: all_filters_empty)
  have "map_of (dashboardPayload d) ''filters'' = Some (VMap (all_filters d))"
    using af by (simp add: map_of_payload_filters)
  moreover have "map_of (all_filters d) ''sources'' = Some (VList (map filter_body ?fs))"
    using ne by (simp add: map_of_all_filters_sources)
  moreover have "map filter_body ?fs ! i = filter_body (?fs ! i)"
    using assms by simp
  ultimately show ?thesis
    by (simp add: getDashboardFilters_map filter_body_eq map_keys_def insert_commute)
qed

text \<open>The filter on \<open>host\<close>, negated, with the values \<open>a\<close> and \<open>b\<close>.\<close>

theorem filter_entries_renamed_witness:
  "0 < length (Set_List (filter_set full_dashboard)) \<and>
   Set_List (filter_set full_dashboard) ! 0 =
     \<lparr>flt_property = ''host'', flt_negated = True, flt_values = SchemaSet [''a'', ''b'']\<rparr> \<and>
   getDashboardFilters full_dashboard ! 0 =
     VMap [(''property'', VString ''host''), (''NOT'', VBool True),
           (''value'', VList [VString ''a'', VString ''b''])]"
  using filter_entries_renamed [of 0 full_dashboard]
  by (simp add: sample_defs getDashboardFilters_map filter_body_eq)

text \<open>
  Claim C6. For the chart at position \<open>i\<close> of the description, element \<open>i\<close> of the
  \<open>charts\<close> array is a map with exactly the keys \<open>chartId\<close>, \<open>row\<close>, \<open>column\<close>,
  \<open>height\<close> and \<open>width\<close>: \<open>chartId\<close> is the chart's \<open>chart_id\<close> and the four
  integers are the chart's own. The array has one element for each chart.
\<close>

theorem chart_entries_renamed:
  assumes "i < length (Set_List (chart d))"
  shows "\<exists>cs item.
           map_of (dashboardPayload d) ''charts'' = Some (VList cs) \<and>
           cs = getDashboardCharts d \<and>
           length cs = length (Set_List (chart d)) \<and>
           cs ! i = VMap item \<and>
           map_keys item = {''chartId'', ''row'', ''column'', ''height'', ''width''} \<and>
           map_of item ''chartId'' = Some (VString (chart_id (Set_List (chart d) ! i))) \<and>
           map_of item ''row'' = Some (VInt (chart_row (Set_List (chart d) ! i))) \<and>
           map_of item ''column'' = Some (VInt (chart_column (Set_List (chart d) ! i))) \<and>
           map_of item ''height'' = Some (VInt (chart_height (Set_List (chart d) ! i))) \<and>
           map_of item ''width'' = Some (VInt (chart_width (Set_List (chart d) ! i)))"
proof -
  let ?cs = "Set_List (chart d)"
  from assms have ne: "?cs \<noteq> []" by auto
  then have "map_of (dashboardPayload d) ''charts'' = Some (VList (map chart_body ?cs))"
    by (simp add: map_of_payload_charts)
  moreover have "map chart_body ?cs ! i = chart_body (?cs ! i)"
    using assms by simp
  ultimately show ?thesis
    by (simp add: getDashboardCharts_map chart_body_eq map_keys_def insert_commute)
qed

text \<open>The chart \<open>abc\<close> at row 0, column 0, of width 12 and height 1.\<close>

theorem chart_entries_renamed_witness:
  "0 < length (Set_List (chart full_dashboard)) \<and>
   Set_List (chart full_dashboard) ! 0 =
     \<lparr>chart_id = ''abc'', chart_row = 0, chart_column = 0, chart_width = 12, chart_height = 1\<rparr> \<and>
   map_of (dashboardPayload full_dashboard) ''charts'' =
     Some (VList [VMap [(''chartId'', VString ''abc''), (''row'', VInt 0), (''column'', VInt 0),
                        (''height'', VInt 1), (''width'', VInt 12)]])"
  using chart_entries_renamed [of 0 full_dashboard]
  by (simp add: sample_defs map_of_payload_charts chart_body_eq)

text \<open>
  Claim C7. For the variable at position \<open>i\<close> of the description, element \<open>i\<close> of the
  \<open>variables\<close> array under \<open>filters\<close> is a map with exactly the keys \<open>property\<close>,
  \<open>alias\<close> and \<open>value\<close>: \<open>property\<close> and \<open>alias\<close> are the variable's strings and
  \<open>value\<close> is its values as a list. The array has one element for each variable.
\<close>

theorem variable_entries_renamed:
  assumes "i < length (Set_List (variable d))"
  shows "\<exists>af vars item.
           map_of (dashboardPayload d) ''filters'' = Some (VMap af) \<and>
           map_of af ''variables'' = Some (VList vars) \<and>
           vars = getDashboardVariables d \<and>
           length vars = length (Set_List (variable d)) \<and>
           vars ! i = VMap item \<and>
           map_keys item = {''property'', ''alias'', ''value''} \<and>
           map_of item ''property'' = Some (VString (var_property (Set_List (variable d) ! i))) \<and>
           map_of item ''alias'' = Some (VString (var_alias (Set_List (variable d) ! i))) \<and>
           map_of item ''value'' =
             Some (VList (map VString (Set_List (var_values (Set_List (variable d) ! i)))))"
proof -
  let ?vs = "Set_List (variable d)"
  from assms have ne: "?vs \<noteq> []" by auto
  then have af: "all_filters d \<noteq> []" by (simp add: all_filters_empty)
  have "map_of (dashboardPayload d) ''filters'' = Some (VMap (all_filters d))"
    using af by (simp add: map_of_payload_filters)
  moreover have "map_of (all_filters d) ''variables'' = Some (VList (map variable_body ?vs))"
    using ne by (simp add: map_of_all_filters_variables)
  moreover have "map variable_body ?vs ! i = variable_body (?vs ! i)"
    using assms by simp
  ultimately show ?thesis
    by (simp add: getDashboardVariables_map variable_body_eq map_keys_def insert_commute)
qed

text \<open>The variable on \<open>region\<close> with the alias \<open>Region\<close> and the values \<open>eu\<close> and \<open>us\<close>.\<close>

theorem variable_entries_renamed_witness:
  "0 < length (Set_List (variable full_dashboard)) \<and>
   Set_List (variable full_dashboard) ! 0 =
     \<lparr>var_property = ''region'', var_alias = ''Region'', var_values = SchemaSet [''eu'', ''us'']\<rparr> \<and>
   getDashboardVariables full_dashboard ! 0 =
     VMap [(''property'', VString ''region''), (''alias'', VString ''Region''),
           (''value'', VList [VString ''eu'', VString ''us''])]"
  using variable_entries_renamed [of 0 full_dashboard]
  by (simp add: sample_defs getDashboardVariables_map variable_body_eq)

text \<open>
  Claim C8. Read, update and delete call their helper with the endpoint
  \<open>https://api.signalfx.com/v2/dashboard\<close>, a slash and the resource's identifier; create
  calls its helper with the bare endpoint. Each call carries the token of the configuration.
\<close>

theorem handler_urls:
  "DASHBOARD_API_URL = ''https://api.signalfx.com/v2/dashboard'' \<and>
   dashboardRead resourceRead d meta w =
     resourceRead (DASHBOARD_API_URL @ ''/'' @ resource_id d) (SfxToken meta) d w \<and>
   dashboardDelete resourceDelete d meta w =
     resourceDelete (DASHBOARD_API_URL @ ''/'' @ resource_id d) (SfxToken meta) d w \<and>
   (getPayloadDashboard Marshal d = Inr payload \<longrightarrow>
      dashboardUpdate resourceUpdate Marshal d meta w =
        resourceUpdate (DASHBOARD_API_URL @ ''/'' @ resource_id d) (SfxToken meta) payload d w \<and>
      dashboardCreate resourceCreate Marshal d meta w =
        resourceCreate DASHBOARD_API_URL (SfxToken meta) payload d w)"
  by (simp add: dashboardRead_def dashboardDelete_def dashboardUpdate_def dashboardCreate_def
      Sprintf_slash_def DASHBOARD_API_URL_def)

text \<open>The four calls for the resource \<open>Abc123\<close> and the token \<open>tok\<close>.\<close>

theorem handler_urls_witness:
  "dashboardRead (recording_plain_helper ''read'' None) full_dashboard sample_config [] =
     (None, [Call ''read'' ''https://api.signalfx.com/v2/dashboard/Abc123'' ''tok'' None]) \<and>
   dashboardDelete (recording_plain_helper ''delete'' None) full_dashboard sample_config [] =
     (None, [Call ''delete'' ''https://api.signalfx.com/v2/dashboard/Abc123'' ''tok'' None]) \<and>
   getPayloadDashboard (\<lambda>v. Inr ''{}'') full_dashboard = Inr ''{}'' \<and>
   dashboardUpdate (recording_payload_helper ''update'' None) (\<lambda>v. Inr ''{}'') full_dashboard
       sample_config [] =
     (None, [Call ''update'' ''https://api.signalfx.com/v2/dashboard/Abc123'' ''tok'' (Some ''{}'')]) \<and>
   dashboardCreate (recording_payload_helper ''create'' None) (\<lambda>v. Inr ''{}'') full_dashboard
       sample_config [] =
     (None, [Call ''create'' ''https://api.signalfx.com/v2/dashboard'' ''tok'' (Some ''{}'')])"
  using handler_urls [of "recording_plain_helper ''read'' None" full_dashboard sample_config "[]"
      "recording_plain_helper ''delete'' None" "\<lambda>v. Inr ''{}''" "''{}''"
      "recording_payload_helper ''update'' None" "recording_payload_helper ''create'' None"]
  by (simp add: getPayloadDashboard_def dashboardCreate_def dashboardUpdate_def dashboardRead_def
      dashboardDelete_def recording_payload_helper_def recording_plain_helper_def
      DASHBOARD_API_URL_def Sprintf_slash_def sample_defs)

text \<open>
  Claim C9. A \<open>time_start\<close> of 0 leaves the \<open>start\<close> key out and a \<open>time_end\<close> of 0
  leaves the \<open>end\<close> key out, as \<open>GetOk\<close> reports a zero value as unset. A dashboard
  whose time bounds are 0 or unset and that has neither filters nor variables has no
  \<open>filters\<close> key.
\<close>

theorem zero_time_bound_omitted:
  "(time_start d = Some 0 \<longrightarrow> ''start'' \<notin> map_keys (entries (getDashboardTime d))) \<and>
   (time_end d = Some 0 \<longrightarrow> ''end'' \<notin> map_keys (entries (getDashboardTime d))) \<and>
   (time_start d \<in> {None, Some 0} \<and> time_end d \<in> {None, Some 0} \<and>
    Set_List (filter_set d) = [] \<and> Set_List (variable d) = [] \<longrightarrow>
      getDashboardTime d = None \<and> ''filters'' \<notin> map_keys (dashboardPayload d))"
proof -
  have s: "time_start d = Some 0 \<Longrightarrow> ''start'' \<notin> map_keys (entries (getDashboardTime d))"
    by (simp add: getDashboardTime_eq GetOk_int_def entries_def map_keys_def Let_def)
  have e: "time_end d = Some 0 \<Longrightarrow> ''end'' \<notin> map_keys (entries (getDashboardTime d))"
    by (simp add: getDashboardTime_eq GetOk_int_def entries_def map_keys_def Let_def)
  have n: "getDashboardTime d = None"
    if "time_start d \<in> {None, Some 0}" "time_end d \<in> {None, Some 0}"
    using that by (auto simp: getDashboardTime_None GetOk_int_def)
  have f: "''filters'' \<notin> map_keys (dashboardPayload d)"
    if "getDashboardTime d = None" "Set_List (filter_set d) = []" "Set_List (variable d) = []"
    using that by (simp add: map_keys_payload all_filters_empty)
  from s e n f show ?thesis by blast
qed

text \<open>
  A dashboard with \<open>time_start\<close> 0 alone has the three fixed keys only; with
  \<open>time_start\<close> 10 and \<open>time_end\<close> 0 the time map holds \<open>start\<close> alone.
\<close>

theorem zero_time_bound_omitted_witness:
  "time_start zero_start_dashboard = Some 0 \<and>
   getDashboardTime zero_start_dashboard = None \<and>
   map_keys (dashboardPayload zero_start_dashboard) = {''name'', ''description'', ''groupId''} \<and>
   time_end zero_end_dashboard = Some 0 \<and>
   getDashboardTime zero_end_dashboard = Some [(''start'', VInt 10000)]"
  using zero_time_bound_omitted [of zero_start_dashboard] zero_time_bound_omitted [of zero_end_dashboard]
  by (simp add: zero_start_dashboard_def zero_end_dashboard_def sample_defs dashboardPayload_eq
      all_filters_eq getDashboardTime_eq GetOk_int_def map_keys_def insert_commute)

text \<open>
  Claim C10. The top-level keys of the payload are among \<open>name\<close>, \<open>description\<close>,
  \<open>groupId\<close>, \<open>filters\<close> and \<open>charts\<close>. Neither \<open>synced\<close> nor \<open>last_updated\<close>
  is a key, and the payload does not depend on these two fields. \<open>description\<close> is always
  a key, with the empty string when the description is unset.
\<close>

theorem payload_top_level_keys:
  "map_keys (dashboardPayload d) \<subseteq> {''name'', ''description'', ''groupId'', ''filters'', ''charts''} \<and>
   ''synced'' \<notin> map_keys (dashboardPayload d) \<and>
   ''last_updated'' \<notin> map_keys (dashboardPayload d) \<and>
   dashboardPayload (d\<lparr>synced := s, last_updated := u\<rparr>) = dashboardPayload d \<and>
   map_of (dashboardPayload d) ''description'' = Some (VString (Get_string (description d))) \<and>
   map_of (dashboardPayload (d\<lparr>description := None\<rparr>)) ''description'' = Some (VString [])"
proof -
  have "all_filters (d\<lparr>synced := s, last_updated := u\<rparr>) = all_filters d"
    by (simp add: all_filters_eq getDashboardTime_eq)
  then have "dashboardPayload (d\<lparr>synced := s, last_updated := u\<rparr>) = dashboardPayload d"
    by (simp add: dashboardPayload_eq)
  moreover have "map_of (dashboardPayload d') ''description'' = Some (VString (Get_string (description d')))" for d'
    by (simp add: dashboardPayload_eq)
  ultimately show ?thesis
    by (auto simp: map_keys_payload Get_string_def)
qed

text \<open>The dashboard with \<open>synced\<close> 1, \<open>last_updated\<close> 7 and no description.\<close>

theorem payload_top_level_keys_witness:
  "map_keys (dashboardPayload empty_dashboard) = {''name'', ''description'', ''groupId''} \<and>
   synced empty_dashboard = 1 \<and> last_updated empty_dashboard = 7 \<and>
   description empty_dashboard = None \<and>
   map_of (dashboardPayload empty_dashboard) ''description'' = Some (VString [])"
  using payload_top_level_keys [of empty_dashboard 1 7]
  by (simp add: sample_defs dashboardPayload_eq all_filters_eq getDashboardTime_eq GetOk_int_def
      Get_string_def map_keys_def insert_commute)

end
